theory Spec2Isabelle
  imports Complex_Main
begin

section \<open>Numbers, failures and library functions\<close>

text \<open>
  The pricing engine of \<^verbatim>\<open>src/models/pricing.py\<close> and \<^verbatim>\<open>src/models/greeks.py\<close>
  computes with Python floats. They are idealised here as real numbers: rounding,
  overflow and underflow are not modelled. What is modelled is every way in which an
  arithmetic step of the source can fail to produce a finite number:
  \<^item> a division of Python floats by zero raises \<^verbatim>\<open>ZeroDivisionError\<close>;
  \<^item> \<^verbatim>\<open>math.log\<close> of a non-positive number and \<^verbatim>\<open>math.sqrt\<close> of a negative
    one raise \<^verbatim>\<open>ValueError\<close>;
  \<^item> a division whose numerator is a numpy scalar (everything computed from
    \<^verbatim>\<open>norm.pdf\<close>) does not raise on a zero divisor: numpy divides by zero, prints a
    \<^verbatim>\<open>RuntimeWarning\<close> and yields an infinity or a NaN. The same holds for a product
    with an infinite factor. The model stops there with \<open>NonFinite\<close>.
\<close>

datatype py_error = ZeroDivisionError | ValueError | NonFinite

type_synonym 'a result = "py_error + 'a"

definition bind_result :: "'a result \<Rightarrow> ('a \<Rightarrow> 'b result) \<Rightarrow> 'b result" where
  "bind_result m f = (case m of Inl e \<Rightarrow> Inl e | Inr v \<Rightarrow> f v)"

definition py_div :: "real \<Rightarrow> real \<Rightarrow> real result" where
  "py_div a b = (if b = 0 then Inl ZeroDivisionError else Inr (a / b))"

definition np_div :: "real \<Rightarrow> real \<Rightarrow> real result" where
  "np_div a b = (if b = 0 then Inl NonFinite else Inr (a / b))"

definition math_log :: "real \<Rightarrow> real result" where
  "math_log x = (if x \<le> 0 then Inl ValueError else Inr (ln x))"

definition math_sqrt :: "real \<Rightarrow> real result" where
  "math_sqrt x = (if x < 0 then Inl ValueError else Inr (sqrt x))"

text \<open>
  The values \<^verbatim>\<open>float('inf')\<close> and \<^verbatim>\<open>float('-inf')\<close> that
  \<^verbatim>\<open>_calculate_d1_d2\<close> returns at expiry.
\<close>

datatype xfloat = Fin real | PosInf | NegInf

definition np_mul :: "real \<Rightarrow> xfloat \<Rightarrow> real result" where
  "np_mul a x = (case x of Fin v \<Rightarrow> Inr (a * v) | PosInf \<Rightarrow> Inl NonFinite | NegInf \<Rightarrow> Inl NonFinite)"

text \<open>
  \<^verbatim>\<open>scipy.stats.norm.pdf\<close>: the density of the standard normal distribution.
\<close>

definition norm_pdf :: "real \<Rightarrow> real" where
  "norm_pdf x = exp (- (x\<^sup>2) / 2) / sqrt (2 * pi)"

text \<open>
  \<^verbatim>\<open>scipy.stats.norm.cdf\<close>: the distribution function of the standard normal
  distribution, given by its power series
  \<open>1/2 + (\<Sum>m. (-1/2)^m x^(2m+1) / (m! (2m+1))) / sqrt (2 pi)\<close>.
  That this is the function with value \<open>1/2\<close> at \<open>0\<close> and derivative \<open>norm_pdf\<close>
  everywhere is proved below (\<open>norm_cdf_zero\<close>, \<open>DERIV_norm_cdf\<close>).
\<close>

definition cdf_coeff :: "nat \<Rightarrow> real" where
  "cdf_coeff n = (if even n then 0 else (- 1 / 2) ^ ((n - 1) div 2) / (fact ((n - 1) div 2) * real n))"

definition norm_cdf :: "real \<Rightarrow> real" where
  "norm_cdf x = 1 / 2 + (\<Sum>n. cdf_coeff n * x ^ n) / sqrt (2 * pi)"

definition norm_cdf_x :: "xfloat \<Rightarrow> real" where
  "norm_cdf_x d = (case d of Fin v \<Rightarrow> norm_cdf v | PosInf \<Rightarrow> 1 | NegInf \<Rightarrow> 0)"

definition norm_pdf_x :: "xfloat \<Rightarrow> real" where
  "norm_pdf_x d = (case d of Fin v \<Rightarrow> norm_pdf v | PosInf \<Rightarrow> 0 | NegInf \<Rightarrow> 0)"

subsection \<open>Fixed-point formatting of the f-strings\<close>

text \<open>
  \<^verbatim>\<open>f"{x:.0f}"\<close> and \<^verbatim>\<open>f"{x:.2f}"\<close>: the decimal expansion with \<open>d\<close> digits
  after the point, ties rounded to even, a minus sign for every negative \<open>x\<close>.
\<close>

definition round_half_even :: "real \<Rightarrow> int" where
  "round_half_even x =
     (let f = \<lfloor>x\<rfloor> in
      if x - of_int f < 1 / 2 then f
      else if x - of_int f > 1 / 2 then f + 1
      else if even f then f else f + 1)"

fun digits :: "nat \<Rightarrow> string" where
  "digits n = (if n < 10 then [''0123456789'' ! n]
               else digits (n div 10) @ [''0123456789'' ! (n mod 10)])"

definition zero_pad :: "nat \<Rightarrow> string \<Rightarrow> string" where
  "zero_pad w s = replicate (w - length s) CHR ''0'' @ s"

definition format_f :: "nat \<Rightarrow> real \<Rightarrow> string" where
  "format_f d x =
     (let n = nat (round_half_even (\<bar>x\<bar> * 10 ^ d));
          whole = n div 10 ^ d;
          frac = n mod 10 ^ d
      in (if x < 0 then ''-'' else '''') @ digits whole @
         (if d = 0 then '''' else ''.'' @ zero_pad d (digits frac)))"

section \<open>The pricer (\<^verbatim>\<open>pricing.py\<close>)\<close>

definition SECONDS_PER_YEAR :: real where
  "SECONDS_PER_YEAR = 365.25 * 24 * 60 * 60"

text \<open>A \<^verbatim>\<open>datetime\<close> is modelled by its POSIX timestamp in microseconds.\<close>

type_synonym datetime = int

record PricingResult =
  timestamp :: datetime
  spot_price :: real
  strike_price :: real
  time_to_expiry_seconds :: real
  volatility :: real
  up_price :: real
  down_price :: real
  delta :: real
  gamma :: real
  theta :: real
  vega :: real
  zone :: string
  zone_description :: string

text \<open>The state of a \<^verbatim>\<open>BinaryOptionPricer\<close> instance.\<close>

record pricer =
  default_volatility :: real

text \<open>The dictionary with the keys delta, gamma, theta, vega that \<^verbatim>\<open>calculate_greeks\<close> returns.\<close>

record greeks =
  delta :: real
  gamma :: real
  theta :: real
  vega :: real

definition calculate_d1_d2 :: "real \<Rightarrow> real \<Rightarrow> real \<Rightarrow> real \<Rightarrow> real \<Rightarrow> (xfloat \<times> xfloat) result" where
  "calculate_d1_d2 S K T sigma0 r =
     (if T \<le> 0 then
        (if S \<ge> K then Inr (PosInf, PosInf) else Inr (NegInf, NegInf))
      else
        let sigma = (if sigma0 \<le> 0 then 0.0001 else sigma0)
        in bind_result (math_sqrt T) (\<lambda>sqrt_T.
           bind_result (py_div S K) (\<lambda>q.
           bind_result (math_log q) (\<lambda>l.
           bind_result (py_div (l + (r + 0.5 * sigma\<^sup>2) * T) (sigma * sqrt_T)) (\<lambda>d1.
             Inr (Fin d1, Fin (d1 - sigma * sqrt_T)))))))"

definition binary_call_price :: "pricer \<Rightarrow> real \<Rightarrow> real \<Rightarrow> real \<Rightarrow> real option \<Rightarrow> real \<Rightarrow> real result" where
  "binary_call_price p S K T_seconds sigma_opt r =
     (let sigma = (case sigma_opt of None \<Rightarrow> default_volatility p | Some s \<Rightarrow> s);
          T = T_seconds / SECONDS_PER_YEAR
      in if T \<le> 0 then Inr (if S \<ge> K then 1 else 0)
         else bind_result (calculate_d1_d2 S K T sigma r) (\<lambda>(d1, d2).
                Inr (max 0 (min 1 (norm_cdf_x d2)))))"

definition binary_put_price :: "pricer \<Rightarrow> real \<Rightarrow> real \<Rightarrow> real \<Rightarrow> real option \<Rightarrow> real \<Rightarrow> real result" where
  "binary_put_price p S K T_seconds sigma_opt r =
     bind_result (binary_call_price p S K T_seconds sigma_opt r) (\<lambda>c. Inr (1 - c))"

definition calculate_greeks :: "pricer \<Rightarrow> real \<Rightarrow> real \<Rightarrow> real \<Rightarrow> real option \<Rightarrow> real \<Rightarrow> greeks result" where
  "calculate_greeks p S K T_seconds sigma_opt r =
     (let sigma = (case sigma_opt of None \<Rightarrow> default_volatility p | Some s \<Rightarrow> s);
          T = T_seconds / SECONDS_PER_YEAR
      in if T \<le> 0 then Inr \<lparr>delta = 0, gamma = 0, theta = 0, vega = 0\<rparr>
         else bind_result (calculate_d1_d2 S K T sigma r) (\<lambda>(d1, d2).
              bind_result (math_sqrt T) (\<lambda>sqrt_T.
              let n_d2 = norm_pdf_x d2 in
              bind_result (np_div n_d2 (S * sigma * sqrt_T)) (\<lambda>delta_v.
              bind_result (np_mul (- n_d2) d1) (\<lambda>m.
              bind_result (np_div m (S\<^sup>2 * sigma\<^sup>2 * T)) (\<lambda>gamma_v.
              bind_result (np_mul n_d2 d1) (\<lambda>m'.
              bind_result (np_div m' (2 * T * sigma * sqrt_T)) (\<lambda>theta_annual.
              let theta_per_second = - theta_annual / SECONDS_PER_YEAR in
              bind_result (np_div (m * sqrt_T) sigma) (\<lambda>vega_v.
                Inr \<lparr>delta = delta_v, gamma = gamma_v,
                     theta = theta_per_second, vega = vega_v\<rparr>)))))))))"

definition classify_zone :: "real \<Rightarrow> real \<Rightarrow> real \<Rightarrow> (string \<times> string) result" where
  "classify_zone T_seconds S K =
     bind_result (py_div \<bar>S - K\<bar> K) (\<lambda>q.
       let distance_pct = q * 100 in
       if T_seconds > 180 then
         Inr (''linear_decay'',
              ''Normal theta decay zone. '' @ format_f 0 T_seconds @ ''s remaining, '' @
              format_f 2 distance_pct @ ''% from strike.'')
       else if T_seconds > 60 \<and> distance_pct > 0.5 then
         Inr (''lock_in'',
              ''Lock-in zone. Price far from strike ('' @ format_f 2 distance_pct @
              ''%), minimal movement expected.'')
       else if T_seconds \<le> 60 \<and> distance_pct \<le> 0.5 then
         Inr (''gamma_risk'',
              ''GAMMA RISK! '' @ format_f 0 T_seconds @ ''s remaining, only '' @
              format_f 2 distance_pct @ ''% from strike. Extreme sensitivity.'')
       else
         Inr (''transition'',
              ''Transition zone. '' @ format_f 0 T_seconds @ ''s remaining, '' @
              format_f 2 distance_pct @ ''% from strike.''))"


text \<open>
  The loop of \<^verbatim>\<open>implied_volatility\<close>: \<open>n\<close> iterations are left, \<open>sigma\<close> is the
  current guess. \<open>None\<close> is the source's \<^verbatim>\<open>None\<close> (did not converge).
\<close>

fun iv_loop :: "pricer \<Rightarrow> real \<Rightarrow> real \<Rightarrow> real \<Rightarrow> real \<Rightarrow> bool \<Rightarrow> real \<Rightarrow> nat \<Rightarrow> real \<Rightarrow> real option result" where
  "iv_loop p market_price S K T_seconds is_call tolerance 0 sigma = Inr None"
| "iv_loop p market_price S K T_seconds is_call tolerance (Suc n) sigma =
     (case (if is_call then binary_call_price p S K T_seconds (Some sigma) 0
            else binary_put_price p S K T_seconds (Some sigma) 0) of
        Inl e \<Rightarrow> Inl e
      | Inr price_v \<Rightarrow>
          (case calculate_greeks p S K T_seconds (Some sigma) 0 of
             Inl e \<Rightarrow> Inl e
           | Inr g \<Rightarrow>
               let vega_v = greeks.vega g;
                   diff = price_v - market_price
               in if \<bar>diff\<bar> < tolerance then Inr (Some sigma)
                  else if \<bar>vega_v\<bar> < 1 / 10 ^ 10 then Inr None
                  else iv_loop p market_price S K T_seconds is_call tolerance n
                         (max 0.01 (min 5.0 (sigma - diff / vega_v)))))"

definition implied_volatility :: "pricer \<Rightarrow> real \<Rightarrow> real \<Rightarrow> real \<Rightarrow> real \<Rightarrow> bool \<Rightarrow> int \<Rightarrow> real \<Rightarrow> real option result" where
  "implied_volatility p market_price S K T_seconds is_call max_iterations tolerance =
     (if T_seconds \<le> 0 then Inr None
      else iv_loop p market_price S K T_seconds is_call tolerance (nat max_iterations) 0.5)"

section \<open>The Greeks analyzer (\<^verbatim>\<open>greeks.py\<close>)\<close>

record GreeksSnapshot =
  spot :: real
  strike :: real
  ttl_seconds :: real
  volatility :: real
  up_price :: real
  down_price :: real
  delta_up :: real
  delta_down :: real
  gamma_up :: real
  gamma_down :: real
  theta_up :: real
  theta_down :: real
  vega_up :: real
  vega_down :: real
  vanna :: "real option"
  charm :: "real option"



text \<open>The dictionary that \<^verbatim>\<open>risk_profile\<close> returns, one field for each key.\<close>

record RiskProfile =
  rp_zone :: string
  rp_zone_description :: string
  moneyness :: string
  distance_to_strike_pct :: real
  rp_up_price :: real
  rp_down_price :: real
  rp_delta :: real
  dollar_delta :: real
  rp_gamma :: real
  theta_per_second :: real
  theta_per_minute :: real
  rp_vega :: real
  gamma_risk_score :: real
  recommendation :: string


section \<open>The zone decision table as the specification words it\<close>

text \<open>
  The four-branch, first-match decision order of the specification, on the time to
  expiry and the distance to the strike in percent. It is compared with
  \<open>classify_zone\<close> below.
\<close>

definition zone_spec :: "real \<Rightarrow> real \<Rightarrow> string" where
  "zone_spec T distance_pct =
     (if T > 180 then ''linear_decay''
      else if T > 60 \<and> distance_pct > 0.5 then ''lock_in''
      else if T \<le> 60 \<and> distance_pct \<le> 0.5 then ''gamma_risk''
      else ''transition'')"

section \<open>Basic facts about the operations\<close>

lemma SECONDS_PER_YEAR_eq: "SECONDS_PER_YEAR = 31557600"
  by (simp add: SECONDS_PER_YEAR_def)

lemma years_nonpos_iff: "T_seconds / SECONDS_PER_YEAR \<le> 0 \<longleftrightarrow> T_seconds \<le> 0"
  by (simp add: SECONDS_PER_YEAR_eq)

lemma years_pos: "0 < T_seconds \<Longrightarrow> 0 < T_seconds / SECONDS_PER_YEAR"
  by (simp add: SECONDS_PER_YEAR_eq)

lemma bind_result_Inr [simp]: "bind_result (Inr v) f = f v"
  by (simp add: bind_result_def)

lemma bind_result_Inl [simp]: "bind_result (Inl e) f = Inl e"
  by (simp add: bind_result_def)


text \<open>For a positive spot, strike and time, \<open>_calculate_d1_d2\<close> takes its main branch.\<close>

lemma calculate_d1_d2_valid:
  assumes "0 < S" "0 < K" "0 < T"
  shows "calculate_d1_d2 S K T sigma r =
    (let s = (if sigma \<le> 0 then 0.0001 else sigma);
         d1 = (ln (S / K) + (r + 0.5 * s\<^sup>2) * T) / (s * sqrt T)
     in Inr (Fin d1, Fin (d1 - s * sqrt T)))"
  using assms
  by (simp add: calculate_d1_d2_def math_sqrt_def py_div_def math_log_def Let_def not_le)

lemma binary_call_price_valid:
  assumes "0 < S" "0 < K" "0 < T_seconds"
  shows "binary_call_price p S K T_seconds (Some sigma) r =
    (let T = T_seconds / SECONDS_PER_YEAR;
         s = (if sigma \<le> 0 then 0.0001 else sigma);
         d1 = (ln (S / K) + (r + 0.5 * s\<^sup>2) * T) / (s * sqrt T)
     in Inr (max 0 (min 1 (norm_cdf (d1 - s * sqrt T)))))"
proof -
  have T: "0 < T_seconds / SECONDS_PER_YEAR"
    by (rule years_pos [OF assms(3)])
  show ?thesis
    using T by (simp add: binary_call_price_def calculate_d1_d2_valid [OF assms(1,2) T] Let_def norm_cdf_x_def)
qed

lemma binary_call_price_at:
  assumes "0 < S" "0 < K" "0 < T_seconds" "0 < sigma"
    and "(ln (S / K) + (r + 0.5 * sigma\<^sup>2) * (T_seconds / SECONDS_PER_YEAR)) /
           (sigma * sqrt (T_seconds / SECONDS_PER_YEAR)) -
         sigma * sqrt (T_seconds / SECONDS_PER_YEAR) = d2"
  shows "binary_call_price p S K T_seconds (Some sigma) r = Inr (max 0 (min 1 (norm_cdf d2)))"
  unfolding binary_call_price_valid [OF assms(1-3)] Let_def
  using assms(4,5) by simp

lemma binary_call_price_expired:
  assumes "T_seconds \<le> 0"
  shows "binary_call_price p S K T_seconds sigma_opt r = Inr (if S \<ge> K then 1 else 0)"
  using assms by (simp add: binary_call_price_def Let_def years_nonpos_iff)

lemma price_side_valid:
  assumes "0 < S" "0 < K" "0 < T_seconds"
  shows "\<exists>c. (if is_call then binary_call_price p S K T_seconds (Some sigma) r
              else binary_put_price p S K T_seconds (Some sigma) r) = Inr c"
  by (simp add: binary_put_price_def binary_call_price_valid [OF assms] Let_def)

lemma calculate_greeks_years:
  assumes "0 < S" "0 < K" "0 < T" "sigma \<noteq> 0" "T = T_seconds / SECONDS_PER_YEAR"
  shows "calculate_greeks p S K T_seconds (Some sigma) r =
    (let s = (if sigma \<le> 0 then 0.0001 else sigma);
         d1 = (ln (S / K) + (r + 0.5 * s\<^sup>2) * T) / (s * sqrt T);
         n_d2 = norm_pdf (d1 - s * sqrt T)
     in Inr \<lparr>delta = n_d2 / (S * sigma * sqrt T),
             gamma = - n_d2 * d1 / (S\<^sup>2 * sigma\<^sup>2 * T),
             theta = - (n_d2 * d1 / (2 * T * sigma * sqrt T)) / SECONDS_PER_YEAR,
             vega = - n_d2 * d1 * sqrt T / sigma\<rparr>)"
  unfolding calculate_greeks_def assms(5) [symmetric]
  using assms(1,3,4)
  by (simp add: calculate_d1_d2_valid [OF assms(1,2,3)] Let_def
      norm_pdf_x_def math_sqrt_def np_div_def np_mul_def)

lemma calculate_greeks_valid:
  assumes "0 < S" "0 < K" "0 < T_seconds" "sigma \<noteq> 0"
  shows "calculate_greeks p S K T_seconds (Some sigma) r =
    (let T = T_seconds / SECONDS_PER_YEAR;
         s = (if sigma \<le> 0 then 0.0001 else sigma);
         d1 = (ln (S / K) + (r + 0.5 * s\<^sup>2) * T) / (s * sqrt T);
         n_d2 = norm_pdf (d1 - s * sqrt T)
     in Inr \<lparr>delta = n_d2 / (S * sigma * sqrt T),
             gamma = - n_d2 * d1 / (S\<^sup>2 * sigma\<^sup>2 * T),
             theta = - (n_d2 * d1 / (2 * T * sigma * sqrt T)) / SECONDS_PER_YEAR,
             vega = - n_d2 * d1 * sqrt T / sigma\<rparr>)"
  using calculate_greeks_years [OF assms(1,2) years_pos [OF assms(3)] assms(4) refl, of p r]
  unfolding Let_def .

lemma calculate_greeks_succeeds:
  assumes "0 < S" "0 < K" "0 < T_seconds" "sigma \<noteq> 0"
  shows "\<exists>g. calculate_greeks p S K T_seconds (Some sigma) r = Inr g"
  by (simp add: calculate_greeks_valid [OF assms] Let_def)

text \<open>
  With a volatility of exactly zero the substitution made inside \<open>_calculate_d1_d2\<close>
  does not reach the formulas of \<open>calculate_greeks\<close>, which divide by the
  volatility they were given.
\<close>

lemma calculate_greeks_years_sigma_zero:
  assumes "0 < S" "0 < K" "0 < T" "T = T_seconds / SECONDS_PER_YEAR"
  shows "calculate_greeks p S K T_seconds (Some 0) r = Inl NonFinite"
  unfolding calculate_greeks_def assms(4) [symmetric]
  using assms(3)
  by (simp add: calculate_d1_d2_valid [OF assms(1,2,3)] Let_def
      norm_pdf_x_def math_sqrt_def np_div_def)

lemma calculate_greeks_sigma_zero:
  assumes "0 < S" "0 < K" "0 < T_seconds"
  shows "calculate_greeks p S K T_seconds (Some 0) r = Inl NonFinite"
  by (rule calculate_greeks_years_sigma_zero [OF assms(1,2) years_pos [OF assms(3)] refl])


subsection \<open>The zone classifier\<close>

lemma classify_zone_refines:
  assumes "K \<noteq> 0"
  shows "\<exists>desc. classify_zone T_seconds S K = Inr (zone_spec T_seconds (\<bar>S - K\<bar> / K * 100), desc)"
  using assms by (simp add: classify_zone_def py_div_def zone_spec_def Let_def)

lemma distance_examples:
  assumes "0 < (K::real)"
  shows "\<bar>K - K\<bar> / K * 100 = 0" "\<bar>K * 1.01 - K\<bar> / K * 100 = 1"
        "\<bar>K * 1.001 - K\<bar> / K * 100 = 0.1" "\<bar>K * 1.002 - K\<bar> / K * 100 = 0.2"
proof -
  show "\<bar>K - K\<bar> / K * 100 = 0" by simp
  have "K * 1.01 - K = K * 0.01" by (simp add: algebra_simps)
  then show "\<bar>K * 1.01 - K\<bar> / K * 100 = 1" using assms by (simp add: abs_mult)
  have "K * 1.001 - K = K * 0.001" by (simp add: algebra_simps)
  then show "\<bar>K * 1.001 - K\<bar> / K * 100 = 0.1" using assms by (simp add: abs_mult)
  have "K * 1.002 - K = K * 0.002" by (simp add: algebra_simps)
  then show "\<bar>K * 1.002 - K\<bar> / K * 100 = 0.2" using assms by (simp add: abs_mult)
qed

subsection \<open>What the results depend on\<close>











subsection \<open>The Newton iteration\<close>

lemma iv_loop_step:
  assumes "(if is_call then binary_call_price p S K T_seconds (Some sigma) 0
            else binary_put_price p S K T_seconds (Some sigma) 0) = Inr c"
    and "calculate_greeks p S K T_seconds (Some sigma) 0 = Inr g"
  shows "iv_loop p market_price S K T_seconds is_call tolerance (Suc n) sigma =
    (if \<bar>c - market_price\<bar> < tolerance then Inr (Some sigma)
     else if \<bar>greeks.vega g\<bar> < 1 / 10 ^ 10 then Inr None
     else iv_loop p market_price S K T_seconds is_call tolerance n
            (max 0.01 (min 5.0 (sigma - (c - market_price) / greeks.vega g))))"
  using assms by (simp add: Let_def)






section \<open>The normal distribution function\<close>

text \<open>
  The series that defines \<open>norm_cdf\<close> converges everywhere and may be differentiated
  term by term; the derived series is that of \<open>exp (- x\<^sup>2 / 2)\<close>. Hence \<open>norm_cdf\<close> is
  the antiderivative of the density with value \<open>1/2\<close> at \<open>0\<close>, and it is non-decreasing.
\<close>

lemma diffs_cdf_coeff:
  "diffs cdf_coeff n = (if even n then (- 1 / 2) ^ (n div 2) / fact (n div 2) else 0)"
  by (simp add: diffs_def cdf_coeff_def)

lemma even_power_half:
  fixes x :: real
  assumes "even n"
  shows "x ^ n = (x\<^sup>2) ^ (n div 2)"
proof -
  from assms obtain k where "n = 2 * k" by (auto elim: evenE)
  then show ?thesis by (simp add: power_mult)
qed

lemma pdf_series:
  "(\<lambda>n. diffs cdf_coeff n * x ^ n) sums exp (- (x\<^sup>2) / 2)"
proof -
  let ?f = "\<lambda>m. (- (x\<^sup>2) / 2) ^ m /\<^sub>R fact m"
  have f: "?f sums exp (- (x\<^sup>2) / 2)"
    by (rule exp_converges)
  have z: "(\<lambda>m::nat. 0::real) sums 0" by (rule sums_zero)
  have "(\<lambda>n. if even n then ?f (n div 2) else 0) sums (0 + exp (- (x\<^sup>2) / 2))"
    using sums_if [OF z f] by simp
  moreover have "(\<lambda>n. if even n then ?f (n div 2) else 0) = (\<lambda>n. diffs cdf_coeff n * x ^ n)"
  proof
    fix n
    show "(if even n then ?f (n div 2) else 0) = diffs cdf_coeff n * x ^ n"
    proof (cases "even n")
      case True
      have a: "(- (x\<^sup>2) / 2) ^ (n div 2) = (- 1 / 2) ^ (n div 2) * (x\<^sup>2) ^ (n div 2)"
        by (simp add: power_mult_distrib [symmetric])
      have "diffs cdf_coeff n * x ^ n = (- 1 / 2) ^ (n div 2) / fact (n div 2) * (x\<^sup>2) ^ (n div 2)"
        unfolding even_power_half [OF True, of x] using True by (simp only: diffs_cdf_coeff if_True)
      also have "\<dots> = ?f (n div 2)"
        unfolding a by (simp add: field_simps)
      finally show ?thesis using True by simp
    next
      case False
      then show ?thesis by (simp add: diffs_cdf_coeff)
    qed
  qed
  ultimately show ?thesis by simp
qed


lemma cdf_coeff_Suc: "cdf_coeff (Suc n) = diffs cdf_coeff n / real (Suc n)"
  by (simp add: diffs_def)

lemma cdf_series_summable: "summable (\<lambda>n. cdf_coeff n * y ^ n)"
proof -
  have "norm y < norm (\<bar>y\<bar> + 1)" by simp
  then have abs_pdf: "summable (\<lambda>n. norm (diffs cdf_coeff n * y ^ n))"
    using powser_insidea [OF sums_summable [OF pdf_series [of "\<bar>y\<bar> + 1"]]] by blast
  then have g: "summable (\<lambda>n. \<bar>y\<bar> * norm (diffs cdf_coeff n * y ^ n))"
    by (rule summable_mult)
  have le: "norm (cdf_coeff (Suc n) * y ^ Suc n) \<le> \<bar>y\<bar> * norm (diffs cdf_coeff n * y ^ n)" for n
  proof -
    have "norm (cdf_coeff (Suc n) * y ^ Suc n) = (\<bar>y\<bar> * norm (diffs cdf_coeff n * y ^ n)) / real (Suc n)"
      unfolding cdf_coeff_Suc by (simp add: abs_mult)
    also have "\<dots> \<le> (\<bar>y\<bar> * norm (diffs cdf_coeff n * y ^ n)) / 1"
      by (rule divide_left_mono) simp_all
    finally show ?thesis by simp
  qed
  have "summable (\<lambda>n. cdf_coeff (Suc n) * y ^ Suc n)"
    by (rule summable_comparison_test' [OF g, of 0]) (rule le)
  then show ?thesis
    using summable_Suc_iff [of "\<lambda>n. cdf_coeff n * y ^ n"] by blast
qed

lemma DERIV_cdf_series:
  "DERIV (\<lambda>x. \<Sum>n. cdf_coeff n * x ^ n) x :> exp (- (x\<^sup>2) / 2)"
proof -
  have "DERIV (\<lambda>x. \<Sum>n. cdf_coeff n * x ^ n) x :> (\<Sum>n. diffs cdf_coeff n * x ^ n)"
    by (rule termdiffs_strong_converges_everywhere) (rule cdf_series_summable)
  then show ?thesis
    by (simp only: sums_unique [OF pdf_series, symmetric])
qed

lemma DERIV_norm_cdf: "DERIV norm_cdf x :> norm_pdf x"
proof -
  have "DERIV (\<lambda>x. 1 / 2 + (\<Sum>n. cdf_coeff n * x ^ n) / sqrt (2 * pi)) x
          :> 0 + exp (- (x\<^sup>2) / 2) / sqrt (2 * pi)"
    by (intro DERIV_add DERIV_const DERIV_cdivide DERIV_cdf_series)
  then show ?thesis
    by (simp add: norm_cdf_def [abs_def] norm_pdf_def)
qed

lemma norm_cdf_zero: "norm_cdf 0 = 1 / 2"
proof -
  have "(\<lambda>n. cdf_coeff n * 0 ^ n) = (\<lambda>n. 0)"
  proof
    fix n show "cdf_coeff n * 0 ^ n = 0"
      by (cases n) (simp_all add: cdf_coeff_def)
  qed
  then show ?thesis by (simp add: norm_cdf_def)
qed

lemma norm_cdf_mono:
  assumes "a \<le> b"
  shows "norm_cdf a \<le> norm_cdf b"
proof (rule DERIV_nonneg_imp_nondecreasing [OF assms])
  fix x
  have "0 \<le> norm_pdf x" by (simp add: norm_pdf_def)
  with DERIV_norm_cdf [of x] show "\<exists>y. DERIV norm_cdf x :> y \<and> 0 \<le> y" by blast
qed

subsection \<open>Bounds on the density and on increments of the distribution function\<close>

lemma norm_pdf_le_half: "norm_pdf x \<le> 1 / 2"
proof -
  have "4 \<le> 2 * pi" using pi_ge_two by simp
  then have "sqrt 4 \<le> sqrt (2 * pi)" by (simp only: real_sqrt_le_iff)
  then have s: "2 \<le> sqrt (2 * pi)" by simp
  have e: "exp (- (x\<^sup>2) / 2) \<le> 1" by simp
  have "exp (- (x\<^sup>2) / 2) / sqrt (2 * pi) \<le> 1 / 2"
    by (rule frac_le) (use s e in simp_all)
  then show ?thesis by (simp add: norm_pdf_def)
qed

lemma norm_pdf_ge_sixth:
  assumes "\<bar>x\<bar> \<le> 1"
  shows "1 / 6 \<le> norm_pdf x"
proof -
  have "2 * pi \<le> 9" using pi_less_4 by simp
  then have "sqrt (2 * pi) \<le> sqrt 9" by (simp only: real_sqrt_le_iff)
  then have s: "sqrt (2 * pi) \<le> 3" by simp
  have s0: "0 < sqrt (2 * pi)" by simp
  have "x\<^sup>2 \<le> 1" using assms by (simp add: abs_square_le_1)
  then have "1 / 2 \<le> 1 + (- (x\<^sup>2) / 2)" by simp
  also have "\<dots> \<le> exp (- (x\<^sup>2) / 2)" by (rule exp_ge_add_one_self)
  finally have e: "1 / 2 \<le> exp (- (x\<^sup>2) / 2)" .
  have "(1 / 2) / 3 \<le> exp (- (x\<^sup>2) / 2) / sqrt (2 * pi)"
    by (rule frac_le) (use s s0 e in simp_all)
  then show ?thesis by (simp add: norm_pdf_def)
qed

lemma norm_cdf_diff_lower:
  assumes "a \<le> b" and m: "\<And>x. a \<le> x \<Longrightarrow> x \<le> b \<Longrightarrow> m \<le> norm_pdf x"
  shows "m * (b - a) \<le> norm_cdf b - norm_cdf a"
proof -
  have "norm_cdf a - m * a \<le> norm_cdf b - m * b"
  proof (rule DERIV_nonneg_imp_nondecreasing [OF assms(1)])
    fix x assume x: "a \<le> x" "x \<le> b"
    have "DERIV (\<lambda>x. norm_cdf x - m * x) x :> norm_pdf x - m * 1"
      by (intro DERIV_diff DERIV_norm_cdf DERIV_cmult DERIV_ident)
    moreover have "0 \<le> norm_pdf x - m * 1" using m [OF x] by simp
    ultimately show "\<exists>y. DERIV (\<lambda>x. norm_cdf x - m * x) x :> y \<and> 0 \<le> y" by blast
  qed
  then show ?thesis by (simp add: algebra_simps)
qed

lemma norm_cdf_diff_upper:
  assumes "a \<le> b"
  shows "norm_cdf b - norm_cdf a \<le> (b - a) / 2"
proof -
  have "a / 2 - norm_cdf a \<le> b / 2 - norm_cdf b"
  proof (rule DERIV_nonneg_imp_nondecreasing [OF assms(1)])
    fix x
    have "DERIV (\<lambda>x. x / 2 - norm_cdf x) x :> 1 / 2 - norm_pdf x"
      by (intro DERIV_diff DERIV_norm_cdf DERIV_cdivide DERIV_ident)
    moreover have "0 \<le> 1 / 2 - norm_pdf x" using norm_pdf_le_half [of x] by simp
    ultimately show "\<exists>y. DERIV (\<lambda>x. x / 2 - norm_cdf x) x :> y \<and> 0 \<le> y" by blast
  qed
  then show ?thesis by (simp add: algebra_simps)
qed

lemma norm_cdf_unit_range:
  assumes "\<bar>x\<bar> \<le> 1"
  shows "0 \<le> norm_cdf x" "norm_cdf x \<le> 1"
proof -
  have lo: "norm_cdf 0 - norm_cdf x \<le> (0 - x) / 2" if "x \<le> 0"
    by (rule norm_cdf_diff_upper [OF that])
  have hi: "norm_cdf x - norm_cdf 0 \<le> (x - 0) / 2" if "0 \<le> x"
    by (rule norm_cdf_diff_upper [OF that])
  have mono0: "norm_cdf 0 \<le> norm_cdf x" if "0 \<le> x" by (rule norm_cdf_mono [OF that])
  have mono1: "norm_cdf x \<le> norm_cdf 0" if "x \<le> 0" by (rule norm_cdf_mono [OF that])
  show "0 \<le> norm_cdf x"
    using lo mono0 assms by (cases "x \<le> 0") (simp_all add: norm_cdf_zero)
  show "norm_cdf x \<le> 1"
    using hi mono1 assms by (cases "x \<le> 0") (simp_all add: norm_cdf_zero)
qed


section \<open>The vega of the code and the Newton iteration at the money\<close>

text \<open>
  The derivative of the unclamped call price \<open>norm_cdf d2\<close> in the volatility is
  \<open>- norm_pdf d2 * d1 / sigma\<close>. The vega that \<open>calculate_greeks\<close> returns is that
  derivative times \<open>sqrt T\<close>.
\<close>

lemma sqrt_times_self:
  assumes "0 < (x::real)"
  shows "0 < sqrt x" "x = sqrt x * sqrt x"
  using assms by simp_all

lemma DERIV_d2_sigma:
  fixes L r u s :: real
  assumes "0 < s" "0 < u"
  shows "DERIV (\<lambda>s. (L + (r + 0.5 * s\<^sup>2) * (u * u)) / (s * u) - s * u) s
           :> - ((L + (r + 0.5 * s\<^sup>2) * (u * u)) / (s * u)) / s"
  using assms
  by (auto intro!: derivative_eq_intros simp: field_simps power2_eq_square)

lemma DERIV_price_sigma:
  fixes L r T s :: real
  assumes "0 < s" "0 < T"
  shows "DERIV (\<lambda>s. norm_cdf ((L + (r + 0.5 * s\<^sup>2) * T) / (s * sqrt T) - s * sqrt T)) s
           :> norm_pdf ((L + (r + 0.5 * s\<^sup>2) * T) / (s * sqrt T) - s * sqrt T) *
              (- ((L + (r + 0.5 * s\<^sup>2) * T) / (s * sqrt T)) / s)"
proof -
  have u: "0 < sqrt T" and T: "T = sqrt T * sqrt T"
    by (rule sqrt_times_self [OF assms(2)])+
  have "DERIV (\<lambda>s. (L + (r + 0.5 * s\<^sup>2) * (sqrt T * sqrt T)) / (s * sqrt T) - s * sqrt T) s
           :> - ((L + (r + 0.5 * s\<^sup>2) * (sqrt T * sqrt T)) / (s * sqrt T)) / s"
    by (rule DERIV_d2_sigma [OF assms(1) u])
  then have "DERIV (\<lambda>s. (L + (r + 0.5 * s\<^sup>2) * T) / (s * sqrt T) - s * sqrt T) s
           :> - ((L + (r + 0.5 * s\<^sup>2) * T) / (s * sqrt T)) / s"
    unfolding T [symmetric] .
  with DERIV_norm_cdf show ?thesis by (rule DERIV_chain2)
qed

lemma vega_is_sqrt_T_times_derivative:
  assumes "0 < S" "0 < K" "0 < T_seconds" "0 < sigma"
  shows "\<exists>g D. calculate_greeks p S K T_seconds (Some sigma) r = Inr g \<and>
           DERIV (\<lambda>s. norm_cdf ((ln (S / K) + (r + 0.5 * s\<^sup>2) * (T_seconds / SECONDS_PER_YEAR)) /
                                   (s * sqrt (T_seconds / SECONDS_PER_YEAR)) -
                                 s * sqrt (T_seconds / SECONDS_PER_YEAR))) sigma :> D \<and>
           greeks.vega g = sqrt (T_seconds / SECONDS_PER_YEAR) * D"
proof -
  let ?T = "T_seconds / SECONDS_PER_YEAR"
  let ?d1 = "(ln (S / K) + (r + 0.5 * sigma\<^sup>2) * ?T) / (sigma * sqrt ?T)"
  have T: "0 < ?T" by (rule years_pos [OF assms(3)])
  have nz: "sigma \<noteq> 0" using assms(4) by simp
  have s: "(if sigma \<le> 0 then 0.0001 else sigma) = sigma" using assms(4) by simp
  obtain g where g: "calculate_greeks p S K T_seconds (Some sigma) r = Inr g"
    using calculate_greeks_succeeds [OF assms(1-3) nz] by blast
  have v: "greeks.vega g = - norm_pdf (?d1 - sigma * sqrt ?T) * ?d1 * sqrt ?T / sigma"
    using g unfolding calculate_greeks_valid [OF assms(1-3) nz] Let_def s by auto
  have "greeks.vega g = sqrt ?T * (norm_pdf (?d1 - sigma * sqrt ?T) * (- ?d1 / sigma))"
    unfolding v by simp
  with g DERIV_price_sigma [OF assms(4) T, of "ln (S / K)" r] show ?thesis by blast
qed

text \<open>
  At the money, 300 seconds before expiry, \<open>sqrt T\<close> is about \<open>0.003\<close>, so a Newton step
  with the vega of the code is about 300 times too long: from the initial guess \<open>0.5\<close>
  the iteration for the price at volatility \<open>0.6\<close> jumps to the upper bound \<open>5\<close>, from
  there to the lower bound \<open>0.01\<close>, and back, until the iterations are used up.
\<close>

lemma clamp_at_upper: "hi \<le> x \<Longrightarrow> lo \<le> hi \<Longrightarrow> max lo (min hi x) = (hi::real)"
  by (simp add: max_def min_def)

lemma clamp_at_lower: "x \<le> lo \<Longrightarrow> lo \<le> hi \<Longrightarrow> max lo (min hi x) = (lo::real)"
  by (auto simp add: max_def min_def)

lemma newton_step_up:
  fixes T d v sigma :: real
  assumes "T = 1 / 105192" "25 / 10 ^ 6 \<le> d" "0 < v" "v \<le> T / 4" "1 / 100 \<le> sigma"
  shows "max (1 / 100) (min 5 (sigma - d / (- v))) = 5"
proof -
  have T: "0 < T" using assms(1) by simp
  have d0: "0 \<le> d" using assms(2) by simp
  have "(25 / 10 ^ 6) / (T / 4) \<le> d / (T / 4)"
    using assms(2) T by (intro divide_right_mono) simp_all
  also have "\<dots> \<le> d / v"
    using assms(3,4) d0 T by (intro divide_left_mono) simp_all
  finally have "(25 / 10 ^ 6) / (T / 4) \<le> d / v" .
  moreover have "10 \<le> (25 / 10 ^ 6) / (T / 4)" unfolding assms(1) by simp
  moreover have "sigma - d / (- v) = sigma + d / v" by simp
  ultimately have "5 \<le> sigma - d / (- v)" using assms(5) by linarith
  then show ?thesis by (rule clamp_at_upper) simp
qed

lemma newton_step_down:
  fixes T d v :: real
  assumes "T = 1 / 105192" "d \<le> - (11 / 10 ^ 4)" "0 < v" "v \<le> T / 4"
  shows "max (1 / 100) (min 5 (5 - d / (- v))) = 1 / 100"
proof -
  have T: "0 < T" using assms(1) by simp
  have "d / v \<le> (- (11 / 10 ^ 4)) / v"
    using assms(2,3) by (intro divide_right_mono) simp_all
  also have "\<dots> \<le> (- (11 / 10 ^ 4)) / (T / 4)"
    using assms(3,4) T by (intro divide_left_mono_neg) simp_all
  finally have "d / v \<le> (- (11 / 10 ^ 4)) / (T / 4)" .
  moreover have "(- (11 / 10 ^ 4)) / (T / 4) \<le> - 100" unfolding assms(1) by simp
  moreover have "5 - d / (- v) = 5 + d / v" by simp
  ultimately have "5 - d / (- v) \<le> 1 / 100" by linarith
  then show ?thesis by (rule clamp_at_lower) simp
qed

lemma atm_d1:
  assumes "0 < sigma" "0 < X"
  shows "(ln 1 + (0 + 0.5 * sigma\<^sup>2) * X) / (sigma * sqrt X) = sigma * sqrt X / 2"
proof -
  have u: "0 < sqrt X" and X: "X = sqrt X * sqrt X"
    by (rule sqrt_times_self [OF assms(2)])+
  have "(ln 1 + (0 + 0.5 * sigma\<^sup>2) * (u * u)) / (sigma * u) = sigma * u / 2" if "0 < u" for u :: real
    using assms(1) that by (simp add: field_simps power2_eq_square)
  from this [OF u] show ?thesis
    unfolding X [symmetric] .
qed

lemma atm_call_price:
  assumes "0 < K" "0 < T_seconds" "0 < sigma"
  shows "binary_call_price p K K T_seconds (Some sigma) 0
         = Inr (max 0 (min 1 (norm_cdf (- (sigma * sqrt (T_seconds / SECONDS_PER_YEAR)) / 2))))"
proof (rule binary_call_price_at [OF assms(1,1,2,3)])
  have K: "K / K = 1" using assms(1) by simp
  show "(ln (K / K) + (0 + 0.5 * sigma\<^sup>2) * (T_seconds / SECONDS_PER_YEAR)) /
      (sigma * sqrt (T_seconds / SECONDS_PER_YEAR)) - sigma * sqrt (T_seconds / SECONDS_PER_YEAR)
      = - (sigma * sqrt (T_seconds / SECONDS_PER_YEAR)) / 2"
    unfolding K atm_d1 [OF assms(3) years_pos [OF assms(2)]] by simp
qed

lemma atm_vega:
  assumes "0 < K" "0 < T_seconds" "0 < sigma"
  shows "\<exists>g. calculate_greeks p K K T_seconds (Some sigma) 0 = Inr g \<and>
             greeks.vega g = - (norm_pdf (- (sigma * sqrt (T_seconds / SECONDS_PER_YEAR)) / 2) *
                                 (T_seconds / SECONDS_PER_YEAR) / 2)"
proof -
  let ?X = "T_seconds / SECONDS_PER_YEAR"
  have X: "0 < ?X" by (rule years_pos [OF assms(2)])
  have K: "K / K = 1" using assms(1) by simp
  have nz: "sigma \<noteq> 0" using assms(3) by simp
  have s: "(if sigma \<le> 0 then 0.0001 else sigma) = sigma" using assms(3) by simp
  have d2: "sigma * sqrt ?X / 2 - sigma * sqrt ?X = - (sigma * sqrt ?X) / 2" by simp
  have "- n * (sigma * u / 2) * u / sigma = - (n * (u * u) / 2)" for n u :: real
    using assms(3) by (simp add: field_simps)
  from this [of "norm_pdf (- (sigma * sqrt ?X) / 2)" "sqrt ?X"]
  have v: "- norm_pdf (- (sigma * sqrt ?X) / 2) * (sigma * sqrt ?X / 2) * sqrt ?X / sigma
           = - (norm_pdf (- (sigma * sqrt ?X) / 2) * ?X / 2)"
    unfolding sqrt_times_self(2) [OF X, symmetric] .
  obtain g where g: "calculate_greeks p K K T_seconds (Some sigma) 0 = Inr g"
    using calculate_greeks_succeeds [OF assms(1,1,2) nz] by blast
  have "greeks.vega g = - norm_pdf (- (sigma * sqrt ?X) / 2) * (sigma * sqrt ?X / 2) * sqrt ?X / sigma"
    using g unfolding calculate_greeks_valid [OF assms(1,1,2) nz] Let_def s K atm_d1 [OF assms(3) X] d2
    by auto
  then have "greeks.vega g = - (norm_pdf (- (sigma * sqrt ?X) / 2) * ?X / 2)"
    unfolding v .
  with g show ?thesis by blast
qed

lemma u300_bounds:
  shows "3 / 1000 \<le> sqrt (300 / SECONDS_PER_YEAR)"
    and "sqrt (300 / SECONDS_PER_YEAR) \<le> 31 / 10000"
    and "300 / SECONDS_PER_YEAR = 1 / 105192"
proof -
  show X: "300 / SECONDS_PER_YEAR = 1 / 105192" by (simp add: SECONDS_PER_YEAR_eq)
  have "(3 / 1000)\<^sup>2 \<le> (1 / 105192 :: real)" by (simp add: power2_eq_square)
  then show "3 / 1000 \<le> sqrt (300 / SECONDS_PER_YEAR)"
    unfolding X by (rule real_le_rsqrt)
  have "(1 / 105192 :: real) \<le> (31 / 10000)\<^sup>2" by (simp add: power2_eq_square)
  then show "sqrt (300 / SECONDS_PER_YEAR) \<le> 31 / 10000"
    unfolding X by (intro real_le_lsqrt) simp_all
qed

lemma atm_arg_small:
  assumes "0 < sigma" "sigma \<le> 5"
  shows "\<bar>- (sigma * sqrt (300 / SECONDS_PER_YEAR)) / 2\<bar> \<le> 1"
proof -
  let ?u = "sqrt (300 / SECONDS_PER_YEAR)"
  have u0: "0 \<le> ?u" using u300_bounds(1) by linarith
  have "sigma * ?u \<le> 5 * (31 / 10000)"
    by (rule mult_mono) (use assms u300_bounds(2) u0 in simp_all)
  moreover have "0 \<le> sigma * ?u" using assms(1) u0 by simp
  ultimately show ?thesis by simp
qed

lemma atm_price_300:
  assumes "0 < K" "0 < sigma" "sigma \<le> 5"
  shows "binary_call_price p K K 300 (Some sigma) 0
         = Inr (norm_cdf (- (sigma * sqrt (300 / SECONDS_PER_YEAR)) / 2))"
proof -
  have "max 0 (min 1 (norm_cdf (- (sigma * sqrt (300 / SECONDS_PER_YEAR)) / 2)))
        = norm_cdf (- (sigma * sqrt (300 / SECONDS_PER_YEAR)) / 2)"
    using norm_cdf_unit_range [OF atm_arg_small [OF assms(2,3)]] by simp
  then show ?thesis
    using atm_call_price [OF assms(1) _ assms(2), of 300 p] by simp
qed

lemma atm_vega_300:
  assumes "0 < K" "0 < sigma" "sigma \<le> 5"
  shows "\<exists>g v. calculate_greeks p K K 300 (Some sigma) 0 = Inr g \<and> greeks.vega g = - v \<and>
               0 < v \<and> v \<le> (1 / 105192) / 4 \<and> 1 / 10 ^ 10 \<le> v"
proof -
  let ?n = "norm_pdf (- (sigma * sqrt (300 / SECONDS_PER_YEAR)) / 2)"
  obtain g where g: "calculate_greeks p K K 300 (Some sigma) 0 = Inr g"
    and v: "greeks.vega g = - (?n * (300 / SECONDS_PER_YEAR) / 2)"
    using atm_vega [OF assms(1) _ assms(2), of 300 p] by auto
  have lo: "1 / 6 \<le> ?n" by (rule norm_pdf_ge_sixth [OF atm_arg_small [OF assms(2,3)]])
  have hi: "?n \<le> 1 / 2" by (rule norm_pdf_le_half)
  have v': "greeks.vega g = - (?n * (1 / 105192) / 2)"
    using v unfolding u300_bounds(3) .
  have "0 < ?n * (1 / 105192) / 2" using lo by simp
  moreover have "?n * (1 / 105192) / 2 \<le> (1 / 105192) / 4" using hi by simp
  moreover have "1 / 10 ^ 10 \<le> ?n * (1 / 105192) / 2" using lo by simp
  ultimately show ?thesis using g v' by blast
qed

lemma atm_diff_low:
  assumes "0 < sigma" "sigma \<le> 1 / 2"
  shows "25 / 10 ^ 6 \<le> norm_cdf (- (sigma * sqrt (300 / SECONDS_PER_YEAR)) / 2)
                          - norm_cdf (- (0.6 * sqrt (300 / SECONDS_PER_YEAR)) / 2)"
proof -
  let ?u = "sqrt (300 / SECONDS_PER_YEAR)"
  let ?a = "- (0.6 * ?u) / 2" and ?b = "- (sigma * ?u) / 2"
  have u0: "0 \<le> ?u" using u300_bounds(1) by linarith
  have "sigma * ?u \<le> (1 / 2) * ?u" by (rule mult_right_mono [OF assms(2) u0])
  then have gap: "(1 / 20) * ?u \<le> ?b - ?a" by simp
  then have ab: "?a \<le> ?b" using u0 by linarith
  have b0: "?b \<le> 0" using assms(1) u0 by simp
  have a1: "- 1 \<le> ?a" using u300_bounds(2) by simp
  have m: "1 / 6 \<le> norm_pdf x" if "?a \<le> x" "x \<le> ?b" for x
    by (rule norm_pdf_ge_sixth) (use that a1 b0 in linarith)
  have "(1 / 6) * ((1 / 20) * (3 / 1000)) \<le> (1 / 6) * (?b - ?a)"
    using gap u300_bounds(1) by simp
  also have "\<dots> \<le> norm_cdf ?b - norm_cdf ?a"
    by (rule norm_cdf_diff_lower [OF ab m])
  finally show ?thesis by simp
qed

lemma atm_diff_high:
  "norm_cdf (- (5 * sqrt (300 / SECONDS_PER_YEAR)) / 2)
     - norm_cdf (- (0.6 * sqrt (300 / SECONDS_PER_YEAR)) / 2) \<le> - (11 / 10 ^ 4)"
proof -
  let ?u = "sqrt (300 / SECONDS_PER_YEAR)"
  let ?a = "- (5 * ?u) / 2" and ?b = "- (0.6 * ?u) / 2"
  have u0: "0 \<le> ?u" using u300_bounds(1) by linarith
  have gap: "?b - ?a = (22 / 10) * ?u" by simp
  have ab: "?a \<le> ?b" using u0 by simp
  have b0: "?b \<le> 0" using u0 by simp
  have a1: "- 1 \<le> ?a" using u300_bounds(2) by simp
  have m: "1 / 6 \<le> norm_pdf x" if "?a \<le> x" "x \<le> ?b" for x
    by (rule norm_pdf_ge_sixth) (use that a1 b0 in linarith)
  have "(1 / 6) * ((22 / 10) * (3 / 1000)) \<le> (1 / 6) * (?b - ?a)"
    unfolding gap using u300_bounds(1) by simp
  also have "\<dots> \<le> norm_cdf ?b - norm_cdf ?a"
    by (rule norm_cdf_diff_lower [OF ab m])
  finally show ?thesis by simp
qed


lemma atm_step_low:
  assumes "0 < K" "1 / 100 \<le> sigma" "sigma \<le> 1 / 2"
  shows "iv_loop p (norm_cdf (- (0.6 * sqrt (300 / SECONDS_PER_YEAR)) / 2)) K K 300 True (1 / 10 ^ 6) (Suc n) sigma
       = iv_loop p (norm_cdf (- (0.6 * sqrt (300 / SECONDS_PER_YEAR)) / 2)) K K 300 True (1 / 10 ^ 6) n 5"
proof -
  let ?P = "norm_cdf (- (0.6 * sqrt (300 / SECONDS_PER_YEAR)) / 2)"
  let ?c = "norm_cdf (- (sigma * sqrt (300 / SECONDS_PER_YEAR)) / 2)"
  have s0: "0 < sigma" and s5: "sigma \<le> 5" using assms(2,3) by simp_all
  have c: "(if True then binary_call_price p K K 300 (Some sigma) 0
            else binary_put_price p K K 300 (Some sigma) 0) = Inr ?c"
    using atm_price_300 [OF assms(1) s0 s5] by simp
  obtain g v where g: "calculate_greeks p K K 300 (Some sigma) 0 = Inr g"
    and v: "greeks.vega g = - v" "0 < v" "v \<le> (1 / 105192) / 4" "1 / 10 ^ 10 \<le> v"
    using atm_vega_300 [OF assms(1) s0 s5] by blast
  have d: "25 / 10 ^ 6 \<le> ?c - ?P" by (rule atm_diff_low [OF s0 assms(3)])
  have nx: "max 0.01 (min 5.0 (sigma - (?c - ?P) / greeks.vega g)) = 5"
    using newton_step_up [OF refl d v(2,3) assms(2)] unfolding v(1) by simp
  have far: "\<not> \<bar>?c - ?P\<bar> < 1 / 10 ^ 6" using d by simp
  have big: "\<not> \<bar>greeks.vega g\<bar> < 1 / 10 ^ 10" using v by simp
  show ?thesis
    unfolding iv_loop_step [OF c g] nx using far big by simp
qed

lemma atm_step_high:
  assumes "0 < K"
  shows "iv_loop p (norm_cdf (- (0.6 * sqrt (300 / SECONDS_PER_YEAR)) / 2)) K K 300 True (1 / 10 ^ 6) (Suc n) 5
       = iv_loop p (norm_cdf (- (0.6 * sqrt (300 / SECONDS_PER_YEAR)) / 2)) K K 300 True (1 / 10 ^ 6) n 0.01"
proof -
  let ?P = "norm_cdf (- (0.6 * sqrt (300 / SECONDS_PER_YEAR)) / 2)"
  let ?c = "norm_cdf (- (5 * sqrt (300 / SECONDS_PER_YEAR)) / 2)"
  have c: "(if True then binary_call_price p K K 300 (Some 5) 0
            else binary_put_price p K K 300 (Some 5) 0) = Inr ?c"
    using atm_price_300 [OF assms(1), of 5 p] by simp
  obtain g v where g: "calculate_greeks p K K 300 (Some 5) 0 = Inr g"
    and v: "greeks.vega g = - v" "0 < v" "v \<le> (1 / 105192) / 4" "1 / 10 ^ 10 \<le> v"
    using atm_vega_300 [OF assms(1), of 5 p] by auto
  have d: "?c - ?P \<le> - (11 / 10 ^ 4)" by (rule atm_diff_high)
  have nx: "max 0.01 (min 5.0 (5 - (?c - ?P) / greeks.vega g)) = 0.01"
    using newton_step_down [OF refl d v(2,3)] unfolding v(1) by simp
  have far: "\<not> \<bar>?c - ?P\<bar> < 1 / 10 ^ 6" using d by simp
  have big: "\<not> \<bar>greeks.vega g\<bar> < 1 / 10 ^ 10" using v by simp
  show ?thesis
    unfolding iv_loop_step [OF c g] nx using far big by simp
qed

lemma atm_cycle:
  assumes "0 < K"
  shows "iv_loop p (norm_cdf (- (0.6 * sqrt (300 / SECONDS_PER_YEAR)) / 2)) K K 300 True (1 / 10 ^ 6) n 5 = Inr None \<and>
         iv_loop p (norm_cdf (- (0.6 * sqrt (300 / SECONDS_PER_YEAR)) / 2)) K K 300 True (1 / 10 ^ 6) n 0.01 = Inr None"
proof (induction n)
  case 0
  show ?case by simp
next
  case (Suc n)
  have "iv_loop p (norm_cdf (- (0.6 * sqrt (300 / SECONDS_PER_YEAR)) / 2)) K K 300 True (1 / 10 ^ 6) (Suc n) 0.01
        = iv_loop p (norm_cdf (- (0.6 * sqrt (300 / SECONDS_PER_YEAR)) / 2)) K K 300 True (1 / 10 ^ 6) n 5"
    by (rule atm_step_low [OF assms]) simp_all
  then show ?case
    using Suc.IH atm_step_high [OF assms, of p n] by (simp del: iv_loop.simps)
qed

lemma atm_roundtrip_does_not_converge:
  assumes "0 < K"
  shows "binary_call_price p K K 300 (Some 0.6) 0
           = Inr (norm_cdf (- (0.6 * sqrt (300 / SECONDS_PER_YEAR)) / 2))"
    and "implied_volatility p (norm_cdf (- (0.6 * sqrt (300 / SECONDS_PER_YEAR)) / 2)) K K 300 True 100 (1 / 10 ^ 6)
           = Inr None"
proof -
  show "binary_call_price p K K 300 (Some 0.6) 0
           = Inr (norm_cdf (- (0.6 * sqrt (300 / SECONDS_PER_YEAR)) / 2))"
    by (rule atm_price_300 [OF assms]) simp_all
  have n: "nat 100 = Suc 99" by simp
  have "iv_loop p (norm_cdf (- (0.6 * sqrt (300 / SECONDS_PER_YEAR)) / 2)) K K 300 True (1 / 10 ^ 6) (Suc 99) 0.5
        = iv_loop p (norm_cdf (- (0.6 * sqrt (300 / SECONDS_PER_YEAR)) / 2)) K K 300 True (1 / 10 ^ 6) 99 5"
    by (rule atm_step_low [OF assms]) simp_all
  also have "\<dots> = Inr None"
    using atm_cycle [OF assms, of p 99] by blast
  finally show "implied_volatility p (norm_cdf (- (0.6 * sqrt (300 / SECONDS_PER_YEAR)) / 2)) K K 300 True 100 (1 / 10 ^ 6)
           = Inr None"
    unfolding implied_volatility_def n by simp
qed

section \<open>The claims\<close>

text \<open>
  Claim C1. For a positive spot, strike, time to expiry and volatility, the call and the
  put price are both computed, they add up to one (exactly on the reals, hence within
  \<open>1e-9\<close>), and both lie between zero and one. The rate may be any number.
\<close>

theorem call_put_parity:
  assumes "0 < S" "0 < K" "0 < T_seconds" "0 < sigma"
  shows "\<exists>c q. binary_call_price p S K T_seconds (Some sigma) r = Inr c \<and>
               binary_put_price p S K T_seconds (Some sigma) r = Inr q \<and>
               c + q = 1 \<and> \<bar>c + q - 1\<bar> \<le> 1 / 10 ^ 9 \<and>
               0 \<le> c \<and> c \<le> 1 \<and> 0 \<le> q \<and> q \<le> 1"
  by (simp add: binary_put_price_def binary_call_price_valid [OF assms(1-3)] Let_def)

theorem call_put_parity_witness:
  "\<exists>c q. binary_call_price \<lparr>default_volatility = 0.6\<rparr> 95000 95000 300 (Some 0.6) 0 = Inr c \<and>
         binary_put_price \<lparr>default_volatility = 0.6\<rparr> 95000 95000 300 (Some 0.6) 0 = Inr q \<and>
         c + q = 1 \<and> \<bar>c + q - 1\<bar> \<le> 1 / 10 ^ 9 \<and>
         0 \<le> c \<and> c \<le> 1 \<and> 0 \<le> q \<and> q \<le> 1"
  using call_put_parity [of 95000 95000 300 "0.6" "\<lparr>default_volatility = 0.6\<rparr>" 0] by simp

text \<open>
  Claim C2. The claim says that a volatility \<open>\<le> 0\<close> is replaced by \<open>1e-4\<close> instead of
  dividing by zero, in \<open>binary_call_price\<close> and in \<open>calculate_greeks\<close>. At the money,
  300 seconds before expiry and with volatility \<open>0\<close>, \<open>binary_call_price\<close> does return
  a price, but \<open>calculate_greeks\<close> divides the density by \<open>S * 0 * sqrt T\<close>: the value
  substituted inside \<open>_calculate_d1_d2\<close> does not reach its formulas. With a negative
  volatility no divisor is zero and Greeks are returned.
\<close>

theorem calculate_greeks_divides_by_zero_sigma:
  "(\<exists>c. binary_call_price \<lparr>default_volatility = 0.6\<rparr> 95000 95000 300 (Some 0) 0 = Inr c) \<and>
   calculate_greeks \<lparr>default_volatility = 0.6\<rparr> 95000 95000 300 (Some 0) 0 = Inl NonFinite \<and>
   (\<exists>g. calculate_greeks \<lparr>default_volatility = 0.6\<rparr> 95000 95000 300 (Some (- 0.2)) 0 = Inr g)"
proof (intro conjI)
  show "\<exists>c. binary_call_price \<lparr>default_volatility = 0.6\<rparr> 95000 95000 300 (Some 0) 0 = Inr c"
    using price_side_valid [of 95000 95000 300 True "\<lparr>default_volatility = 0.6\<rparr>" 0 0] by simp
  show "calculate_greeks \<lparr>default_volatility = 0.6\<rparr> 95000 95000 300 (Some 0) 0 = Inl NonFinite"
    by (rule calculate_greeks_sigma_zero) simp_all
  show "\<exists>g. calculate_greeks \<lparr>default_volatility = 0.6\<rparr> 95000 95000 300 (Some (- 0.2)) 0 = Inr g"
    by (rule calculate_greeks_succeeds) simp_all
qed




text \<open>
  Claim C4. At or after expiry (\<open>T_seconds \<le> 0\<close>) the call price is \<open>1\<close> if \<open>S \<ge> K\<close>
  and \<open>0\<close> otherwise, and the put price is one minus that, for every volatility (also
  the default one) and rate; the result is a constant, so the normal distribution is
  not evaluated. Spot and strike need not even be positive.
\<close>

theorem expired_prices:
  assumes "T_seconds \<le> 0"
  shows "binary_call_price p S K T_seconds sigma_opt r = Inr (if S \<ge> K then 1 else 0) \<and>
         binary_put_price p S K T_seconds sigma_opt r = Inr (1 - (if S \<ge> K then 1 else 0))"
  using assms by (simp add: binary_put_price_def binary_call_price_expired)

theorem expired_prices_witness:
  "binary_call_price \<lparr>default_volatility = 0.6\<rparr> 95100 95000 0 (Some 0.6) 0 = Inr 1 \<and>
   binary_put_price \<lparr>default_volatility = 0.6\<rparr> 95100 95000 0 (Some 0.6) 0 = Inr 0 \<and>
   binary_call_price \<lparr>default_volatility = 0.6\<rparr> 94900 95000 (- 5) None 0 = Inr 0 \<and>
   binary_put_price \<lparr>default_volatility = 0.6\<rparr> 94900 95000 (- 5) None 0 = Inr 1"
  using expired_prices [of 0 "\<lparr>default_volatility = 0.6\<rparr>" 95100 95000 "Some 0.6" 0]
    expired_prices [of "- 5" "\<lparr>default_volatility = 0.6\<rparr>" 94900 95000 None 0]
  by simp

text \<open>
  Claim C5. For a positive strike, \<open>classify_zone\<close> returns the zone that the
  four-branch, first-match decision table of the specification gives for the time and
  the distance \<open>|S - K| / K * 100\<close>; in particular \<open>T = 181\<close> at the strike is
  \<open>linear_decay\<close>, \<open>T = 120\<close> at \<open>1.01 K\<close> is \<open>lock_in\<close>, \<open>T = 30\<close> at \<open>1.001 K\<close> is
  \<open>gamma_risk\<close> and \<open>T = 90\<close> at \<open>1.002 K\<close> is \<open>transition\<close>.
\<close>

theorem classify_zone_decision_order:
  assumes "0 < K"
  shows "(\<exists>desc. classify_zone T_seconds S K = Inr (zone_spec T_seconds (\<bar>S - K\<bar> / K * 100), desc)) \<and>
         (\<exists>desc. classify_zone 181 K K = Inr (''linear_decay'', desc)) \<and>
         (\<exists>desc. classify_zone 120 (K * 1.01) K = Inr (''lock_in'', desc)) \<and>
         (\<exists>desc. classify_zone 30 (K * 1.001) K = Inr (''gamma_risk'', desc)) \<and>
         (\<exists>desc. classify_zone 90 (K * 1.002) K = Inr (''transition'', desc))"
proof -
  have K: "K \<noteq> 0" using assms by simp
  have a: "\<exists>desc. classify_zone 181 K K = Inr (''linear_decay'', desc)"
    using classify_zone_refines [OF K, of 181 K] by (simp add: zone_spec_def)
  have b: "\<exists>desc. classify_zone 120 (K * 1.01) K = Inr (''lock_in'', desc)"
    using classify_zone_refines [OF K, of 120 "K * 1.01"]
    by (simp only: distance_examples(2) [OF assms]) (simp add: zone_spec_def)
  have c: "\<exists>desc. classify_zone 30 (K * 1.001) K = Inr (''gamma_risk'', desc)"
    using classify_zone_refines [OF K, of 30 "K * 1.001"]
    by (simp only: distance_examples(3) [OF assms]) (simp add: zone_spec_def)
  have d: "\<exists>desc. classify_zone 90 (K * 1.002) K = Inr (''transition'', desc)"
    using classify_zone_refines [OF K, of 90 "K * 1.002"]
    by (simp only: distance_examples(4) [OF assms]) (simp add: zone_spec_def)
  from classify_zone_refines [OF K] a b c d show ?thesis by blast
qed

theorem classify_zone_decision_order_witness:
  "0 < (95000::real) \<and>
   (\<exists>desc. classify_zone 120 95950 95000 = Inr (''lock_in'', desc)) \<and>
   (\<exists>desc. classify_zone 181 95000 95000 = Inr (''linear_decay'', desc))"
  using classify_zone_decision_order [of 95000 120 95950] by (simp add: zone_spec_def)




text \<open>
  Nor does the solver always return a number. In the scenario of the specification
  (spot and strike \<open>95000\<close>, 300 seconds to expiry, volatility \<open>0.6\<close>) the iteration
  swings between the bounds \<open>5\<close> and \<open>0.01\<close> and ends after 100 iterations without a
  result, because the vega it divides by is \<open>sqrt T\<close> times the derivative of the price.
\<close>

theorem roundtrip_at_the_money_does_not_converge:
  "binary_call_price \<lparr>default_volatility = 0.6\<rparr> 95000 95000 300 (Some 0.6) 0
     = Inr (norm_cdf (- (0.6 * sqrt (300 / SECONDS_PER_YEAR)) / 2)) \<and>
   implied_volatility \<lparr>default_volatility = 0.6\<rparr>
     (norm_cdf (- (0.6 * sqrt (300 / SECONDS_PER_YEAR)) / 2)) 95000 95000 300 True 100 (1 / 10 ^ 6)
     = Inr None"
  using atm_roundtrip_does_not_converge [of 95000 "\<lparr>default_volatility = 0.6\<rparr>"] by simp



text \<open>
  Claim C8. For a fixed positive strike, time to expiry and volatility (and any rate),
  the call price is computed for every positive spot and is non-decreasing in the spot.
\<close>

theorem binary_call_price_mono:
  assumes "0 < K" "0 < T_seconds" "0 < sigma" "0 < S1" "S1 \<le> S2"
  shows "\<exists>c1 c2. binary_call_price p S1 K T_seconds (Some sigma) r = Inr c1 \<and>
                 binary_call_price p S2 K T_seconds (Some sigma) r = Inr c2 \<and> c1 \<le> c2"
proof -
  let ?T = "T_seconds / SECONDS_PER_YEAR"
  let ?d2 = "\<lambda>S. (ln (S / K) + (r + 0.5 * sigma\<^sup>2) * ?T) / (sigma * sqrt ?T) - sigma * sqrt ?T"
  have S2: "0 < S2" using assms(4,5) by simp
  have T: "0 < ?T" by (rule years_pos [OF assms(2)])
  have den: "0 \<le> sigma * sqrt ?T" using assms(3) T by simp
  have "S1 / K \<le> S2 / K"
    using assms(1,5) by (simp add: divide_right_mono)
  moreover have "0 < S1 / K" using assms(1,4) by simp
  ultimately have "ln (S1 / K) \<le> ln (S2 / K)" by simp
  then have "(ln (S1 / K) + (r + 0.5 * sigma\<^sup>2) * ?T) / (sigma * sqrt ?T)
             \<le> (ln (S2 / K) + (r + 0.5 * sigma\<^sup>2) * ?T) / (sigma * sqrt ?T)"
    by (intro divide_right_mono den) simp
  then have "?d2 S1 \<le> ?d2 S2" by simp
  then have "norm_cdf (?d2 S1) \<le> norm_cdf (?d2 S2)" by (rule norm_cdf_mono)
  then have le: "max 0 (min 1 (norm_cdf (?d2 S1))) \<le> max 0 (min 1 (norm_cdf (?d2 S2)))"
    by (simp add: max_def min_def)
  have c1: "binary_call_price p S1 K T_seconds (Some sigma) r = Inr (max 0 (min 1 (norm_cdf (?d2 S1))))"
    by (rule binary_call_price_at [OF assms(4,1,2,3) refl])
  have c2: "binary_call_price p S2 K T_seconds (Some sigma) r = Inr (max 0 (min 1 (norm_cdf (?d2 S2))))"
    by (rule binary_call_price_at [OF S2 assms(1,2,3) refl])
  from c1 c2 le show ?thesis by blast
qed

theorem binary_call_price_mono_witness:
  "\<exists>c1 c2. binary_call_price \<lparr>default_volatility = 0.6\<rparr> 94000 95000 300 (Some 0.6) 0 = Inr c1 \<and>
           binary_call_price \<lparr>default_volatility = 0.6\<rparr> 96000 95000 300 (Some 0.6) 0 = Inr c2 \<and> c1 \<le> c2"
  using binary_call_price_mono [of 95000 300 "0.6" 94000 96000 "\<lparr>default_volatility = 0.6\<rparr>" 0] by simp





end
